theory Spec2Isabelle
  imports Main
begin

section \<open>Python values\<close>

text \<open>
  A Python \<open>str\<close> is modelled as a \<^typ>\<open>string\<close> whose characters stand for code
  points below 256; \<open>len\<close> and slicing count characters. Exceptions are values: a
  computation that may raise returns \<open>exn + 'a\<close>, with \<open>Inl\<close> for the raised exception.
  \<open>ApiError\<close> stands for whatever the chat-completion client raises.
\<close>

datatype exn = KeyError string | IndexError | ApiError string

definition digit_char :: "nat \<Rightarrow> char" where
  "digit_char d = ''0123456789'' ! d"

fun digits :: "nat \<Rightarrow> string" where
  "digits n = (if n < 10 then [digit_char n] else digits (n div 10) @ [digit_char (n mod 10)])"

declare digits.simps [simp del]

definition py_str_int :: "int \<Rightarrow> string" where
  \<comment> \<open>\<open>str(i)\<close>, as an f-string renders an integer.\<close>
  "py_str_int i = (if i < 0 then CHR ''-'' # digits (nat (- i)) else digits (nat i))"

definition isspace :: "char \<Rightarrow> bool" where
  \<comment> \<open>\<open>str.isspace\<close> on the code points below 256.\<close>
  "isspace c = (of_char c \<in> {9, 10, 11, 12, 13, 28, 29, 30, 31, 32, 133, 160 :: nat})"

definition strip :: "string \<Rightarrow> string" where
  \<comment> \<open>\<open>s.strip()\<close>: leading and trailing whitespace removed.\<close>
  "strip s = rev (dropWhile isspace (rev (dropWhile isspace s)))"

definition py_index :: "'a list \<Rightarrow> int \<Rightarrow> exn + 'a" where
  \<comment> \<open>\<open>xs[i]\<close> on a list: a negative index counts from the end, out of range raises.\<close>
  "py_index xs i =
     (if 0 \<le> i \<and> i < int (length xs) then Inr (xs ! nat i)
      else if i < 0 \<and> - int (length xs) \<le> i then Inr (xs ! nat (int (length xs) + i))
      else Inl IndexError)"

definition last_three :: "'a list \<Rightarrow> 'a list" where
  \<comment> \<open>The slice \<open>xs[-3:]\<close>.\<close>
  "last_three xs = drop (length xs - 3) xs"

section \<open>The notebook document\<close>

text \<open>
  The value \<open>json.load\<close> returns for a notebook file. A JSON object is a \<open>dict\<close>, kept
  as the list of its items (keys distinct) and read with \<^const>\<open>map_of\<close>. The values
  of a cell's entries are restricted to what the notebook format stores under the keys
  the code reads: a string, or a list of strings. The root object is restricted to
  entries holding a list of cell objects; whether it has the key \<open>cells\<close> is left open.
\<close>

datatype jval = JStr string | JList "string list"

type_synonym 'v dict = "(string \<times> 'v) list"

definition subscript :: "'v dict \<Rightarrow> string \<Rightarrow> exn + 'v" where
  \<comment> \<open>\<open>d[k]\<close> on a dict: a missing key raises \<open>KeyError\<close>.\<close>
  "subscript d k = (case map_of d k of None \<Rightarrow> Inl (KeyError k) | Some v \<Rightarrow> Inr v)"

record cell_data =
  index :: nat
  ctype :: jval
  source :: string
  cid :: jval

definition parse_cell :: "nat \<Rightarrow> jval dict \<Rightarrow> exn + cell_data" where
  \<comment> \<open>The dict display of \<open>parse_notebook\<close>: its entries are evaluated in order.\<close>
  "parse_cell idx cell =
     (case subscript cell ''cell_type'' of
        Inl e \<Rightarrow> Inl e
      | Inr t \<Rightarrow>
          (case subscript cell ''source'' of
             Inl e \<Rightarrow> Inl e
           | Inr s \<Rightarrow>
               Inr \<lparr> index = idx,
                     ctype = t,
                     source = (case s of JList fragments \<Rightarrow> concat fragments | JStr text \<Rightarrow> text),
                     cid = (case map_of cell ''id'' of
                              None \<Rightarrow> JStr (''cell-'' @ digits idx)
                            | Some v \<Rightarrow> v) \<rparr>))"

fun parse_loop :: "nat \<Rightarrow> jval dict list \<Rightarrow> cell_data list \<Rightarrow> exn + cell_data list" where
  "parse_loop idx [] cells = Inr cells"
| "parse_loop idx (cell # rest) cells =
     (case parse_cell idx cell of
        Inl e \<Rightarrow> Inl e
      | Inr cell_data \<Rightarrow> parse_loop (Suc idx) rest (cells @ [cell_data]))"

definition parse_notebook :: "jval dict list dict \<Rightarrow> exn + cell_data list" where
  "parse_notebook notebook =
     (case subscript notebook ''cells'' of
        Inl e \<Rightarrow> Inl e
      | Inr raw_cells \<Rightarrow> parse_loop 0 raw_cells [])"

section \<open>Prompts\<close>

definition snippet :: "string \<Rightarrow> string" where
  \<comment> \<open>The interpolation \<open>{cell['source'][:100]}...\<close> of the context line.\<close>
  "snippet src = take 100 src @ ''...''"

definition context_line :: "cell_data \<Rightarrow> string" where
  "context_line cell = ''Cell '' @ digits (index cell) @ '': '' @ snippet (source cell) @ ''\<newline>''"

fun context_loop :: "cell_data list \<Rightarrow> string \<Rightarrow> string" where
  "context_loop [] context = context"
| "context_loop (cell # rest) context =
     (if ctype cell = JStr ''code'' then context_loop rest (context @ context_line cell)
      else context_loop rest context)"

definition build_context :: "cell_data list option \<Rightarrow> string" where
  \<comment> \<open>\<open>if context_cells:\<close> is false for \<open>None\<close> and for the empty list.\<close>
  "build_context context_cells =
     (case context_cells of
        None \<Rightarrow> ''''
      | Some cs \<Rightarrow>
          if cs = [] then ''''
          else context_loop (last_three cs) ''Previous cells executed:\<newline>'')"

definition explain_prompt :: "string \<Rightarrow> int \<Rightarrow> string \<Rightarrow> string" where
  "explain_prompt context cell_index cell_content =
     ''You are a patient, expert programming tutor helping a student understand Jupyter notebook code.\<newline>''
     @ ''\<newline>''
     @ context @ ''\<newline>''
     @ ''\<newline>''
     @ ''Current cell (Cell '' @ py_str_int cell_index @ ''):\<newline>''
     @ ''```python\<newline>''
     @ cell_content @ ''\<newline>''
     @ ''```\<newline>''
     @ ''\<newline>''
     @ ''Please explain this cell by covering:\<newline>''
     @ ''1. **What it does**: A clear, simple explanation of what this code accomplishes\<newline>''
     @ ''2. **Key concepts**: The important programming or AI concepts being demonstrated\<newline>''
     @ ''3. **Why it matters**: How this fits into the bigger picture of learning about AI agents\<newline>''
     @ ''4. **Connection**: How this builds on or relates to previous cells\<newline>''
     @ ''\<newline>''
     @ ''Keep your explanation clear, concise, and encouraging. Use analogies when helpful.\<newline>''
     @ ''Format your response in markdown.\<newline>''"

definition experiments_prompt :: "string \<Rightarrow> string" where
  "experiments_prompt cell_content =
     ''You are a creative programming tutor who believes students learn best by experimenting.\<newline>''
     @ ''\<newline>''
     @ ''Here's a code cell from a Jupyter notebook:\<newline>''
     @ ''\<newline>''
     @ ''```python\<newline>''
     @ cell_content @ ''\<newline>''
     @ ''```\<newline>''
     @ ''\<newline>''
     @ ''Please suggest 3-5 specific experiments the student can try to deepen their understanding. For each experiment:\<newline>''
     @ ''1. Describe what to modify in the code\<newline>''
     @ ''2. Predict what will happen\<newline>''
     @ ''3. Explain what concept this experiment demonstrates\<newline>''
     @ ''\<newline>''
     @ ''Make the experiments progressively more challenging:\<newline>''
     @ ''- Start with simple modifications (change a value, remove a parameter)\<newline>''
     @ ''- Progress to more complex changes (restructure code, add features)\<newline>''
     @ ''\<newline>''
     @ ''Format each experiment like this:\<newline>''
     @ ''\<newline>''
     @ ''### Experiment N: [Catchy title]\<newline>''
     @ ''**What to do:** [Specific code change]\<newline>''
     @ ''**Prediction:** [What will happen]\<newline>''
     @ ''**Why it matters:** [What concept this teaches]\<newline>''
     @ ''**Code snippet:**\<newline>''
     @ ''```python\<newline>''
     @ ''[Modified code]\<newline>''
     @ ''```\<newline>''
     @ ''\<newline>''
     @ ''Be specific with code examples. Format your response in markdown.\<newline>''"

section \<open>The agent\<close>

text \<open>
  The chat-completion service is a parameter \<open>openai\<close>: from the prompt to the content
  of the first choice, or to the exception the client raises. Every function threads
  \<open>requests\<close>, the prompts sent so far, oldest first.
\<close>

type_synonym backend = "string \<Rightarrow> exn + string"

definition explain_concept ::
  "backend \<Rightarrow> string \<Rightarrow> int \<Rightarrow> cell_data list option \<Rightarrow> string list \<Rightarrow> (exn + string) \<times> string list" where
  "explain_concept openai cell_content cell_index context_cells requests =
     (let context = build_context context_cells;
          prompt = explain_prompt context cell_index cell_content
      in (openai prompt, requests @ [prompt]))"

definition suggest_experiments ::
  "backend \<Rightarrow> string \<Rightarrow> int \<Rightarrow> string list \<Rightarrow> (exn + string) \<times> string list" where
  "suggest_experiments openai cell_content cell_index requests =
     (let prompt = experiments_prompt cell_content
      in (openai prompt, requests @ [prompt]))"

datatype analysis =
    Error string
  | Info string
  | Analysis int string string string

definition analyze_cell ::
  "backend \<Rightarrow> jval dict list dict \<Rightarrow> int \<Rightarrow> string list \<Rightarrow> (exn + analysis) \<times> string list" where
  "analyze_cell openai notebook cell_index requests =
     (case parse_notebook notebook of
        Inl e \<Rightarrow> (Inl e, requests)
      | Inr cells \<Rightarrow>
          if cell_index \<ge> int (length cells) then
            (Inr (Error (''Cell index '' @ py_str_int cell_index @ '' out of range. Notebook has ''
                          @ digits (length cells) @ '' cells.'')), requests)
          else
            (case py_index cells cell_index of
               Inl e \<Rightarrow> (Inl e, requests)
             | Inr target_cell \<Rightarrow>
                 if ctype target_cell \<noteq> JStr ''code'' then
                   (Inr (Info (''Cell '' @ py_str_int cell_index @ '' is a markdown cell, not code.'')),
                    requests)
                 else
                   (let context_cells = (if cell_index > 0 then take (nat cell_index) cells else [])
                    in case explain_concept openai (source target_cell) cell_index
                              (Some context_cells) requests of
                         (Inl e, requests1) \<Rightarrow> (Inl e, requests1)
                       | (Inr explanation, requests1) \<Rightarrow>
                           (case suggest_experiments openai (source target_cell) cell_index requests1 of
                              (Inl e, requests2) \<Rightarrow> (Inl e, requests2)
                            | (Inr experiments, requests2) \<Rightarrow>
                                (Inr (Analysis cell_index (source target_cell) explanation experiments),
                                 requests2)))))"

section \<open>The notebook helper\<close>

text \<open>
  The live session as the helper reads it: the execution counter, the attribute
  \<open>history_manager.input_hist_parsed\<close> (\<open>None\<close> when the history manager has no such
  attribute) and the entry \<open>In\<close> of the user namespace (\<open>None\<close> when the key is not
  there), which is a list or a dict keyed by execution count. What the helper displays
  is appended to \<open>displayed\<close>; pictographs of the displayed texts are left out, and
  the decorative HTML blocks are named rather than spelled out.
\<close>

datatype history = HistList "string list" | HistDict "(int \<times> string) list"

record session =
  execution_count :: "int option"
  input_hist_parsed :: "string list option"
  user_ns_In :: "history option"

datatype html = GreenRule | OrangeRule | SessionBanner | TipBox

datatype display = Warning string | Markdown string | HTML html

record world =
  requests :: "string list"
  displayed :: "display list"

definition display :: "world \<Rightarrow> display list \<Rightarrow> world" where
  "display w items = w\<lparr>displayed := displayed w @ items\<rparr>"

definition history_item :: "history \<Rightarrow> int \<Rightarrow> exn + string" where
  \<comment> \<open>\<open>ipython.user_ns.get('In', {})[prev_execution]\<close> when \<open>In\<close> is in the namespace.\<close>
  "history_item h k =
     (case h of
        HistList xs \<Rightarrow> py_index xs k
      | HistDict d \<Rightarrow> (case map_of d k of None \<Rightarrow> Inl (KeyError (py_str_int k)) | Some v \<Rightarrow> Inr v))"

definition previous_cell :: "session \<Rightarrow> int \<Rightarrow> exn + string" where
  \<comment> \<open>The \<open>try\<close> block of the three helpers, with its \<open>except (IndexError, KeyError)\<close>.\<close>
  "previous_cell ipython prev_execution =
     (case (case input_hist_parsed ipython of
              Some hist \<Rightarrow>
                if prev_execution < int (length hist) then py_index hist prev_execution
                else Inr ''''
            | None \<Rightarrow>
                (case user_ns_In ipython of
                   Some h \<Rightarrow> history_item h prev_execution
                 | None \<Rightarrow> Inr '''')) of
        Inl IndexError \<Rightarrow> Inr ''''
      | Inl (KeyError k) \<Rightarrow> Inr ''''
      | Inl e \<Rightarrow> Inl e
      | Inr prev_cell \<Rightarrow> Inr prev_cell)"

definition explain_this_cell :: "backend \<Rightarrow> session \<Rightarrow> world \<Rightarrow> (exn + unit) \<times> world" where
  "explain_this_cell openai ipython w =
     (let current_execution_count = execution_count ipython in
      if current_execution_count = None \<or> the current_execution_count \<le> 1 then
        (Inr (), display w [Warning ''Need at least one previous cell to explain.''])
      else
        (let prev_execution = the current_execution_count - 1 in
         case previous_cell ipython prev_execution of
           Inl e \<Rightarrow> (Inl e, w)
         | Inr prev_cell \<Rightarrow>
             if prev_cell = [] \<or> strip prev_cell = [] then
               (Inr (), display w [Warning ''Previous cell appears to be empty.''])
             else
               (let clean_code = strip prev_cell;
                    w1 = display w [HTML GreenRule, Markdown ''# Understanding This Code'',
                           Markdown (''```python\<newline>'' @ clean_code @ ''\<newline>```'')]
                in case explain_concept openai clean_code prev_execution None (requests w1) of
                     (Inl e, rs) \<Rightarrow> (Inl e, w1\<lparr>requests := rs\<rparr>)
                   | (Inr explanation, rs) \<Rightarrow>
                       (Inr (), display (w1\<lparr>requests := rs\<rparr>) [Markdown explanation]))))"

definition experiments_for_this_cell :: "backend \<Rightarrow> session \<Rightarrow> world \<Rightarrow> (exn + unit) \<times> world" where
  "experiments_for_this_cell openai ipython w =
     (let current_execution_count = execution_count ipython in
      if current_execution_count = None \<or> the current_execution_count \<le> 1 then
        (Inr (), display w [Warning ''Need at least one previous cell to generate experiments for.''])
      else
        (let prev_execution = the current_execution_count - 1 in
         case previous_cell ipython prev_execution of
           Inl e \<Rightarrow> (Inl e, w)
         | Inr prev_cell \<Rightarrow>
             if prev_cell = [] \<or> strip prev_cell = [] then
               (Inr (), display w [Warning ''Previous cell appears to be empty.''])
             else
               (let clean_code = strip prev_cell;
                    w1 = display w [HTML OrangeRule, Markdown ''# Experiments to Try'']
                in case suggest_experiments openai clean_code prev_execution (requests w1) of
                     (Inl e, rs) \<Rightarrow> (Inl e, w1\<lparr>requests := rs\<rparr>)
                   | (Inr experiments, rs) \<Rightarrow>
                       (Inr (), display (w1\<lparr>requests := rs\<rparr>) [Markdown experiments]))))"

definition teach_me_this_cell :: "backend \<Rightarrow> session \<Rightarrow> world \<Rightarrow> (exn + unit) \<times> world" where
  "teach_me_this_cell openai ipython w =
     (let current_execution_count = execution_count ipython in
      if current_execution_count = None \<or> the current_execution_count \<le> 1 then
        (Inr (), display w [Warning ''Need at least one previous cell to teach.''])
      else
        (let prev_execution = the current_execution_count - 1 in
         case previous_cell ipython prev_execution of
           Inl e \<Rightarrow> (Inl e, w)
         | Inr prev_cell \<Rightarrow>
             if prev_cell = [] \<or> strip prev_cell = [] then
               (Inr (), display w [Warning ''Previous cell appears to be empty.''])
             else
               (let clean_code = strip prev_cell;
                    w1 = display w [HTML SessionBanner, Markdown ''## Your Code'',
                           Markdown (''```python\<newline>'' @ clean_code @ ''\<newline>```''),
                           HTML GreenRule, Markdown ''## Concept Explanation'']
                in case explain_concept openai clean_code prev_execution None (requests w1) of
                     (Inl e, rs) \<Rightarrow> (Inl e, w1\<lparr>requests := rs\<rparr>)
                   | (Inr explanation, rs) \<Rightarrow>
                       (let w2 = display (w1\<lparr>requests := rs\<rparr>)
                                   [Markdown explanation, HTML OrangeRule,
                                    Markdown ''## Hands-On Experiments'']
                        in case suggest_experiments openai clean_code prev_execution (requests w2) of
                             (Inl e, rs2) \<Rightarrow> (Inl e, w2\<lparr>requests := rs2\<rparr>)
                           | (Inr experiments, rs2) \<Rightarrow>
                               (Inr (), display (w2\<lparr>requests := rs2\<rparr>)
                                          [Markdown experiments, HTML TipBox])))))"

section \<open>Notions of the specification\<close>

definition spec_context_window :: "cell_data list \<Rightarrow> cell_data list" where
  \<comment> \<open>Follows the specification, not the code: the last 3 entries whose kind is code.\<close>
  "spec_context_window cs = last_three (filter (\<lambda>c. ctype c = JStr ''code'') cs)"

definition fragmented :: "jval dict \<Rightarrow> jval dict \<Rightarrow> bool" where
  \<comment> \<open>The second cell is the first with its string source split into fragments.\<close>
  "fragmented c c' =
     (map_of c' ''cell_type'' = map_of c ''cell_type'' \<and> map_of c' ''id'' = map_of c ''id'' \<and>
      (case (map_of c ''source'', map_of c' ''source'') of
         (Some (JStr text), Some (JList fragments)) \<Rightarrow> concat fragments = text
       | _ \<Rightarrow> False))"

definition lookup_miss :: "session \<Rightarrow> int \<Rightarrow> bool" where
  \<comment> \<open>The history has no entry at a positive ordinal \<open>k\<close>: index out of range or key absent.\<close>
  "lookup_miss ipython k =
     (case input_hist_parsed ipython of
        Some hist \<Rightarrow> int (length hist) \<le> k
      | None \<Rightarrow>
          (case user_ns_In ipython of
             None \<Rightarrow> True
           | Some (HistList xs) \<Rightarrow> int (length xs) \<le> k
           | Some (HistDict d) \<Rightarrow> map_of d k = None))"

section \<open>Basic facts\<close>

lemma digits_small: "n < 10 \<Longrightarrow> digits n = [digit_char n]"
  by (simp add: digits.simps)

lemma digit_char_simps:
  "digit_char 0 = CHR ''0''" "digit_char 1 = CHR ''1''" "digit_char (Suc 0) = CHR ''1''"
  "digit_char 2 = CHR ''2''" "digit_char 3 = CHR ''3''" "digit_char 4 = CHR ''4''"
  by (simp_all add: digit_char_def)

lemma strip_Nil: "strip [] = []"
  by (simp add: strip_def)

lemma strip_nonempty: "strip s \<noteq> [] \<Longrightarrow> s \<noteq> []"
  by (auto simp: strip_Nil)

lemma strip_idem: "strip (strip s) = strip s"
proof -
  define t where "t = dropWhile isspace s"
  define u where "u = dropWhile isspace (rev t)"
  have s: "strip s = rev u" by (simp add: strip_def t_def u_def)
  have "dropWhile isspace (rev u) = rev u"
  proof (cases "u = []")
    case True
    then show ?thesis by simp
  next
    case False
    obtain p where p: "rev t = p @ u"
      unfolding u_def by (metis takeWhile_dropWhile_id)
    then have t: "t = rev u @ rev p" by (metis rev_append rev_rev_ident)
    with False have "hd (rev u) = hd t" by simp
    moreover have "t \<noteq> []" using t False by simp
    then have "\<not> isspace (hd t)" unfolding t_def by (rule hd_dropWhile)
    ultimately show ?thesis using False by (simp add: dropWhile_eq_self_iff)
  qed
  moreover have "dropWhile isspace u = u" unfolding u_def by simp
  ultimately show ?thesis unfolding s by (simp add: strip_def)
qed

subsection \<open>Parsing\<close>

lemma parse_one_code_cell:
  "parse_notebook [(''cells'', [[(''cell_type'', JStr ''code''), (''source'', JStr src)]])]
     = Inr [\<lparr>index = 0, ctype = JStr ''code'', source = src, cid = JStr ''cell-0''\<rparr>]"
  by (simp add: parse_notebook_def subscript_def parse_cell_def digits_small digit_char_simps)

lemma parse_cell_missing:
  "map_of cell ''cell_type'' = None \<or> map_of cell ''source'' = None \<Longrightarrow>
     parse_cell idx cell = Inl (KeyError ''cell_type'') \<or> parse_cell idx cell = Inl (KeyError ''source'')"
  by (auto simp: parse_cell_def subscript_def split: option.splits)

lemma parse_cell_cases:
  "parse_cell idx cell = Inl (KeyError ''cell_type'') \<or> parse_cell idx cell = Inl (KeyError ''source'')
     \<or> (\<exists>c. parse_cell idx cell = Inr c)"
  by (auto simp: parse_cell_def subscript_def split: option.splits)

lemma parse_loop_missing:
  "\<exists>cell \<in> set raw_cells. map_of cell ''cell_type'' = None \<or> map_of cell ''source'' = None \<Longrightarrow>
     parse_loop idx raw_cells acc = Inl (KeyError ''cell_type'')
     \<or> parse_loop idx raw_cells acc = Inl (KeyError ''source'')"
proof (induction raw_cells arbitrary: idx acc)
  case Nil
  then show ?case by simp
next
  case (Cons cell rest)
  show ?case
  proof (cases "map_of cell ''cell_type'' = None \<or> map_of cell ''source'' = None")
    case True
    from parse_cell_missing [OF this, of idx] show ?thesis by auto
  next
    case False
    with Cons.prems have "\<exists>c \<in> set rest. map_of c ''cell_type'' = None \<or> map_of c ''source'' = None"
      by auto
    from Cons.IH [OF this] parse_cell_cases [of idx cell] show ?thesis
      by (auto split: sum.splits)
  qed
qed

lemma parse_cell_fragmented:
  "fragmented c c' \<Longrightarrow> parse_cell idx c' = parse_cell idx c"
  by (auto simp: fragmented_def parse_cell_def subscript_def split: option.splits jval.splits)

lemma parse_loop_fragmented:
  "list_all2 fragmented cs cs' \<Longrightarrow> parse_loop idx cs' acc = parse_loop idx cs acc"
proof (induction cs cs' arbitrary: idx acc rule: list_all2_induct)
  case Nil
  then show ?case by simp
next
  case (Cons c cs c' cs')
  then show ?case by (simp add: parse_cell_fragmented split: sum.splits)
qed

lemma parse_loop_sources:
  "\<forall>c \<in> set cs. map_of c ''cell_type'' \<noteq> None \<and> (\<exists>s. map_of c ''source'' = Some (JStr s)) \<Longrightarrow>
     \<exists>cells. parse_loop idx cs acc = Inr (acc @ cells)
       \<and> map (\<lambda>c. Some (JStr (source c))) cells = map (\<lambda>c. map_of c ''source'') cs"
proof (induction cs arbitrary: idx acc)
  case Nil
  then show ?case by simp
next
  case (Cons c cs)
  from Cons.prems obtain t str where
    c: "map_of c ''cell_type'' = Some t" "map_of c ''source'' = Some (JStr str)"
    by auto
  define d where "d = \<lparr>index = idx, ctype = t, source = str,
      cid = (case map_of c ''id'' of None \<Rightarrow> JStr (''cell-'' @ digits idx) | Some v \<Rightarrow> v)\<rparr>"
  have pc: "parse_cell idx c = Inr d"
    using c by (simp add: parse_cell_def subscript_def d_def)
  from Cons.prems have "\<forall>c \<in> set cs. map_of c ''cell_type'' \<noteq> None \<and> (\<exists>s. map_of c ''source'' = Some (JStr s))"
    by simp
  from Cons.IH [OF this, of "Suc idx" "acc @ [d]"] obtain cells where
    "parse_loop (Suc idx) cs (acc @ [d]) = Inr ((acc @ [d]) @ cells)"
    "map (\<lambda>c. Some (JStr (source c))) cells = map (\<lambda>c. map_of c ''source'') cs"
    by blast
  then have "parse_loop idx (c # cs) acc = Inr (acc @ (d # cells))
      \<and> map (\<lambda>c. Some (JStr (source c))) (d # cells) = map (\<lambda>c. map_of c ''source'') (c # cs)"
    using pc c by (simp add: d_def)
  then show ?case by blast
qed

subsection \<open>The context and the requests\<close>

lemma context_loop_eq:
  "context_loop cs acc = acc @ concat (map context_line (filter (\<lambda>c. ctype c = JStr ''code'') cs))"
  by (induction cs arbitrary: acc) simp_all

lemma build_context_None: "build_context None = ''''"
  by (simp add: build_context_def)

lemma explain_concept_eq:
  "explain_concept openai c i ctx sent
     = (openai (explain_prompt (build_context ctx) i c), sent @ [explain_prompt (build_context ctx) i c])"
  by (simp add: explain_concept_def Let_def)

lemma suggest_experiments_eq:
  "suggest_experiments openai c i sent = (openai (experiments_prompt c), sent @ [experiments_prompt c])"
  by (simp add: suggest_experiments_def Let_def)

subsection \<open>The stored-document entry point\<close>

lemma analyze_cell_target:
  assumes "parse_notebook notebook = Inr cells"
    and "cell_index < int (length cells)"
    and "py_index cells cell_index = Inr target"
  shows "analyze_cell openai notebook cell_index sent =
     (if ctype target \<noteq> JStr ''code'' then
        (Inr (Info (''Cell '' @ py_str_int cell_index @ '' is a markdown cell, not code.'')), sent)
      else
        (case openai (explain_prompt
                 (build_context (Some (if cell_index > 0 then take (nat cell_index) cells else [])))
                 cell_index (source target)) of
           Inl e \<Rightarrow>
             (Inl e, sent @ [explain_prompt
                 (build_context (Some (if cell_index > 0 then take (nat cell_index) cells else [])))
                 cell_index (source target)])
         | Inr explanation \<Rightarrow>
             (case openai (experiments_prompt (source target)) of
                Inl e \<Rightarrow>
                  (Inl e, sent @ [explain_prompt
                     (build_context (Some (if cell_index > 0 then take (nat cell_index) cells else [])))
                     cell_index (source target), experiments_prompt (source target)])
              | Inr experiments \<Rightarrow>
                  (Inr (Analysis cell_index (source target) explanation experiments),
                   sent @ [explain_prompt
                     (build_context (Some (if cell_index > 0 then take (nat cell_index) cells else [])))
                     cell_index (source target), experiments_prompt (source target)]))))"
  using assms
  by (simp add: analyze_cell_def explain_concept_eq suggest_experiments_eq Let_def split: sum.splits)

lemma analyze_cell_out_of_range:
  assumes "parse_notebook notebook = Inr cells" and "int (length cells) \<le> cell_index"
  shows "analyze_cell openai notebook cell_index sent =
     (Inr (Error (''Cell index '' @ py_str_int cell_index @ '' out of range. Notebook has ''
                   @ digits (length cells) @ '' cells.'')), sent)"
  using assms by (simp add: analyze_cell_def)

lemma analyze_cell_raises:
  "parse_notebook notebook = Inl e \<Longrightarrow> analyze_cell openai notebook cell_index sent = (Inl e, sent)"
  by (simp add: analyze_cell_def)

subsection \<open>The live-session entry points\<close>

lemma previous_cell_returns: "\<exists>s. previous_cell ipython k = Inr s"
  by (auto simp: previous_cell_def history_item_def py_index_def
      split: option.splits history.splits sum.splits exn.splits)

lemma previous_cell_miss:
  "0 \<le> k \<Longrightarrow> lookup_miss ipython k \<Longrightarrow> previous_cell ipython k = Inr ''''"
  by (auto simp: previous_cell_def lookup_miss_def history_item_def py_index_def
      split: option.splits history.splits)

lemma explain_this_cell_no_previous:
  "execution_count ipython = None \<or> (\<exists>c. execution_count ipython = Some c \<and> c \<le> 1) \<Longrightarrow>
     explain_this_cell openai ipython w
       = (Inr (), display w [Warning ''Need at least one previous cell to explain.''])"
  by (auto simp: explain_this_cell_def Let_def)

lemma experiments_for_this_cell_no_previous:
  "execution_count ipython = None \<or> (\<exists>c. execution_count ipython = Some c \<and> c \<le> 1) \<Longrightarrow>
     experiments_for_this_cell openai ipython w
       = (Inr (), display w [Warning ''Need at least one previous cell to generate experiments for.''])"
  by (auto simp: experiments_for_this_cell_def Let_def)

lemma teach_me_this_cell_no_previous:
  "execution_count ipython = None \<or> (\<exists>c. execution_count ipython = Some c \<and> c \<le> 1) \<Longrightarrow>
     teach_me_this_cell openai ipython w
       = (Inr (), display w [Warning ''Need at least one previous cell to teach.''])"
  by (auto simp: teach_me_this_cell_def Let_def)

lemma explain_this_cell_blank:
  assumes "execution_count ipython = Some c" "1 < c"
    and "previous_cell ipython (c - 1) = Inr prev_cell" "strip prev_cell = []"
  shows "explain_this_cell openai ipython w
       = (Inr (), display w [Warning ''Previous cell appears to be empty.''])"
  using assms by (simp add: explain_this_cell_def Let_def)

lemma experiments_for_this_cell_blank:
  assumes "execution_count ipython = Some c" "1 < c"
    and "previous_cell ipython (c - 1) = Inr prev_cell" "strip prev_cell = []"
  shows "experiments_for_this_cell openai ipython w
       = (Inr (), display w [Warning ''Previous cell appears to be empty.''])"
  using assms by (simp add: experiments_for_this_cell_def Let_def)

lemma teach_me_this_cell_blank:
  assumes "execution_count ipython = Some c" "1 < c"
    and "previous_cell ipython (c - 1) = Inr prev_cell" "strip prev_cell = []"
  shows "teach_me_this_cell openai ipython w
       = (Inr (), display w [Warning ''Previous cell appears to be empty.''])"
  using assms by (simp add: teach_me_this_cell_def Let_def)

lemma explain_this_cell_requests:
  assumes "execution_count ipython = Some c" "1 < c"
    and "previous_cell ipython (c - 1) = Inr prev_cell" "strip prev_cell \<noteq> []"
  shows "requests (snd (explain_this_cell openai ipython w))
       = requests w @ [explain_prompt '''' (c - 1) (strip prev_cell)]"
  using assms strip_nonempty [OF assms(4)]
  by (simp add: explain_this_cell_def Let_def explain_concept_eq build_context_None display_def
      split: sum.splits)

lemma experiments_for_this_cell_requests:
  assumes "execution_count ipython = Some c" "1 < c"
    and "previous_cell ipython (c - 1) = Inr prev_cell" "strip prev_cell \<noteq> []"
  shows "requests (snd (experiments_for_this_cell openai ipython w))
       = requests w @ [experiments_prompt (strip prev_cell)]"
  using assms strip_nonempty [OF assms(4)]
  by (simp add: experiments_for_this_cell_def Let_def suggest_experiments_eq display_def
      split: sum.splits)

lemma teach_me_this_cell_requests:
  assumes "execution_count ipython = Some c" "1 < c"
    and "previous_cell ipython (c - 1) = Inr prev_cell" "strip prev_cell \<noteq> []"
  shows "requests (snd (teach_me_this_cell openai ipython w))
       = requests w @
           (case openai (explain_prompt '''' (c - 1) (strip prev_cell)) of
              Inl e \<Rightarrow> [explain_prompt '''' (c - 1) (strip prev_cell)]
            | Inr explanation \<Rightarrow>
                [explain_prompt '''' (c - 1) (strip prev_cell), experiments_prompt (strip prev_cell)])"
  using assms strip_nonempty [OF assms(4)]
  by (simp add: teach_me_this_cell_def Let_def explain_concept_eq suggest_experiments_eq
      build_context_None display_def split: sum.splits)

section \<open>The context window\<close>

text \<open>
  Claim C1, as the code has it: the snippet built for a preceding code cell is the first
  100 characters of its source followed by the marker \<open>...\<close>, and the marker is
  appended always, also when the source has at most 100 characters (the snippet is then
  the whole source followed by the marker). No snippet carries more than the first 100
  characters of its source plus the marker.
\<close>

theorem snippet_always_marked:
  "ctype cell = JStr ''code'' \<Longrightarrow>
     context_loop [cell] context
       = context @ ''Cell '' @ digits (index cell) @ '': '' @ snippet (source cell) @ ''\<newline>''
     \<and> snippet (source cell) = take 100 (source cell) @ ''...''
     \<and> (length (source cell) \<le> 100 \<longrightarrow> snippet (source cell) = source cell @ ''...'')
     \<and> length (snippet (source cell)) \<le> 100 + length ''...''"
  by (simp add: context_line_def snippet_def)

text \<open>Witness for C1: a code cell with the source \<open>x = 1\<close>.\<close>

theorem snippet_always_marked_witness:
  "ctype \<lparr>index = 0, ctype = JStr ''code'', source = ''x = 1'', cid = JStr ''cell-0''\<rparr> = JStr ''code''
   \<and> context_loop [\<lparr>index = 0, ctype = JStr ''code'', source = ''x = 1'', cid = JStr ''cell-0''\<rparr>]
        ''Previous cells executed:\<newline>''
       = ''Previous cells executed:\<newline>Cell 0: x = 1...\<newline>''
   \<and> snippet ''x = 1'' = ''x = 1...''"
  using snippet_always_marked
    [of "\<lparr>index = 0, ctype = JStr ''code'', source = ''x = 1'', cid = JStr ''cell-0''\<rparr>"
        "''Previous cells executed:\<newline>''"]
  by (simp add: digits_small digit_char_simps)

text \<open>
  Counterexample to C1 as stated: a source of 5 characters is not kept verbatim, the
  marker follows it in the context.
\<close>

theorem short_source_is_marked:
  "length ''x = 1'' \<le> 100
   \<and> build_context (Some [\<lparr>index = 0, ctype = JStr ''code'', source = ''x = 1'', cid = JStr ''cell-0''\<rparr>])
       = ''Previous cells executed:\<newline>Cell 0: x = 1...\<newline>''
   \<and> snippet ''x = 1'' \<noteq> ''x = 1''"
  by (simp add: build_context_def last_three_def context_line_def snippet_def digits_small
      digit_char_simps)

text \<open>
  Claim C2, as the code has it: the context holds one line for each code cell among the
  last 3 preceding cells of any kind, in their original order, after the header line;
  so it holds at most 3 snippets, and fewer when a non-code cell is among the last 3.
  Without preceding cells the context is empty.
\<close>

theorem context_is_code_of_last_three:
  "build_context None = '''' \<and> build_context (Some []) = '''' \<and>
   (context_cells \<noteq> [] \<longrightarrow>
      build_context (Some context_cells)
        = ''Previous cells executed:\<newline>''
          @ concat (map context_line
              (filter (\<lambda>c. ctype c = JStr ''code'')
                 (drop (length context_cells - 3) context_cells)))) \<and>
   length (filter (\<lambda>c. ctype c = JStr ''code'') (drop (length context_cells - 3) context_cells)) \<le> 3"
proof -
  have "length (filter (\<lambda>c. ctype c = JStr ''code'') (drop (length context_cells - 3) context_cells))
          \<le> length (drop (length context_cells - 3) context_cells)"
    by (rule length_filter_le)
  also have "\<dots> \<le> 3" by simp
  finally show ?thesis
    by (simp add: build_context_def last_three_def context_loop_eq)
qed

text \<open>Witness for C2: a code cell, a markdown cell and a code cell precede the target.\<close>

theorem context_is_code_of_last_three_witness:
  "[\<lparr>index = 0, ctype = JStr ''code'', source = ''a = 1'', cid = JStr ''cell-0''\<rparr>,
    \<lparr>index = 1, ctype = JStr ''markdown'', source = ''# notes'', cid = JStr ''cell-1''\<rparr>,
    \<lparr>index = 2, ctype = JStr ''code'', source = ''c = 3'', cid = JStr ''cell-2''\<rparr>] \<noteq> []
   \<and> build_context (Some
       [\<lparr>index = 0, ctype = JStr ''code'', source = ''a = 1'', cid = JStr ''cell-0''\<rparr>,
        \<lparr>index = 1, ctype = JStr ''markdown'', source = ''# notes'', cid = JStr ''cell-1''\<rparr>,
        \<lparr>index = 2, ctype = JStr ''code'', source = ''c = 3'', cid = JStr ''cell-2''\<rparr>])
      = ''Previous cells executed:\<newline>Cell 0: a = 1...\<newline>Cell 2: c = 3...\<newline>''"
  using context_is_code_of_last_three
    [of "[\<lparr>index = 0, ctype = JStr ''code'', source = ''a = 1'', cid = JStr ''cell-0''\<rparr>,
          \<lparr>index = 1, ctype = JStr ''markdown'', source = ''# notes'', cid = JStr ''cell-1''\<rparr>,
          \<lparr>index = 2, ctype = JStr ''code'', source = ''c = 3'', cid = JStr ''cell-2''\<rparr>]"]
  by (simp add: context_line_def snippet_def digits_small digit_char_simps)

text \<open>
  Counterexample to C2 as stated: three code cells and then a markdown cell precede
  the target. The last 3 code entries are the cells 0, 1 and 2, but the context holds
  the cells 1 and 2 only.
\<close>

theorem interleaved_markdown_shrinks_window:
  "map index (spec_context_window
       [\<lparr>index = 0, ctype = JStr ''code'', source = ''a = 1'', cid = JStr ''cell-0''\<rparr>,
        \<lparr>index = 1, ctype = JStr ''code'', source = ''b = 2'', cid = JStr ''cell-1''\<rparr>,
        \<lparr>index = 2, ctype = JStr ''code'', source = ''c = 3'', cid = JStr ''cell-2''\<rparr>,
        \<lparr>index = 3, ctype = JStr ''markdown'', source = ''# notes'', cid = JStr ''cell-3''\<rparr>])
     = [0, 1, 2]
   \<and> build_context (Some
       [\<lparr>index = 0, ctype = JStr ''code'', source = ''a = 1'', cid = JStr ''cell-0''\<rparr>,
        \<lparr>index = 1, ctype = JStr ''code'', source = ''b = 2'', cid = JStr ''cell-1''\<rparr>,
        \<lparr>index = 2, ctype = JStr ''code'', source = ''c = 3'', cid = JStr ''cell-2''\<rparr>,
        \<lparr>index = 3, ctype = JStr ''markdown'', source = ''# notes'', cid = JStr ''cell-3''\<rparr>])
     = ''Previous cells executed:\<newline>Cell 1: b = 2...\<newline>Cell 2: c = 3...\<newline>''"
  by (simp add: spec_context_window_def build_context_def last_three_def context_line_def
      snippet_def digits_small digit_char_simps)

section \<open>Blank sources\<close>

text \<open>
  Claim C3, as the code has it: in the live-session entry points \<open>explain_this_cell\<close>,
  \<open>experiments_for_this_cell\<close> and \<open>teach_me_this_cell\<close>, when the resolved source is
  empty or all whitespace the call displays a warning and sends no generation request;
  otherwise the text handed to prompt composition is the trimmed source, which is not
  empty. (The stored-document entry point has no such check.)
\<close>

theorem live_helpers_guard_blank_source:
  assumes "execution_count ipython = Some c" and "1 < c"
    and "previous_cell ipython (c - 1) = Inr prev_cell"
  shows "(strip prev_cell = [] \<longrightarrow>
            explain_this_cell openai ipython w
              = (Inr (), w\<lparr>displayed := displayed w @ [Warning ''Previous cell appears to be empty.'']\<rparr>)
          \<and> experiments_for_this_cell openai ipython w
              = (Inr (), w\<lparr>displayed := displayed w @ [Warning ''Previous cell appears to be empty.'']\<rparr>)
          \<and> teach_me_this_cell openai ipython w
              = (Inr (), w\<lparr>displayed := displayed w @ [Warning ''Previous cell appears to be empty.'']\<rparr>))
       \<and> (strip prev_cell \<noteq> [] \<longrightarrow>
            requests (snd (explain_this_cell openai ipython w))
              = requests w @ [explain_prompt '''' (c - 1) (strip prev_cell)]
          \<and> requests (snd (experiments_for_this_cell openai ipython w))
              = requests w @ [experiments_prompt (strip prev_cell)]
          \<and> requests (snd (teach_me_this_cell openai ipython w))
              = requests w @
                  (case openai (explain_prompt '''' (c - 1) (strip prev_cell)) of
                     Inl e \<Rightarrow> [explain_prompt '''' (c - 1) (strip prev_cell)]
                   | Inr explanation \<Rightarrow>
                       [explain_prompt '''' (c - 1) (strip prev_cell),
                        experiments_prompt (strip prev_cell)])
          \<and> strip (strip prev_cell) \<noteq> [])"
proof (intro conjI impI)
  assume blank: "strip prev_cell = []"
  show "explain_this_cell openai ipython w
      = (Inr (), w\<lparr>displayed := displayed w @ [Warning ''Previous cell appears to be empty.'']\<rparr>)"
    using explain_this_cell_blank [OF assms blank] by (simp add: display_def)
  show "experiments_for_this_cell openai ipython w
      = (Inr (), w\<lparr>displayed := displayed w @ [Warning ''Previous cell appears to be empty.'']\<rparr>)"
    using experiments_for_this_cell_blank [OF assms blank] by (simp add: display_def)
  show "teach_me_this_cell openai ipython w
      = (Inr (), w\<lparr>displayed := displayed w @ [Warning ''Previous cell appears to be empty.'']\<rparr>)"
    using teach_me_this_cell_blank [OF assms blank] by (simp add: display_def)
next
  assume code: "strip prev_cell \<noteq> []"
  show "requests (snd (explain_this_cell openai ipython w))
      = requests w @ [explain_prompt '''' (c - 1) (strip prev_cell)]"
    by (rule explain_this_cell_requests [OF assms code])
  show "requests (snd (experiments_for_this_cell openai ipython w))
      = requests w @ [experiments_prompt (strip prev_cell)]"
    by (rule experiments_for_this_cell_requests [OF assms code])
  show "requests (snd (teach_me_this_cell openai ipython w))
      = requests w @
          (case openai (explain_prompt '''' (c - 1) (strip prev_cell)) of
             Inl e \<Rightarrow> [explain_prompt '''' (c - 1) (strip prev_cell)]
           | Inr explanation \<Rightarrow>
               [explain_prompt '''' (c - 1) (strip prev_cell),
                experiments_prompt (strip prev_cell)])"
    by (rule teach_me_this_cell_requests [OF assms code])
  show "strip (strip prev_cell) \<noteq> []"
    using code by (simp add: strip_idem)
qed

text \<open>
  Witness for C3: at execution count 3, once with a previous cell of three spaces and
  once with the previous cell \<open>x = 1\<close> between spaces.
\<close>

theorem live_helpers_guard_blank_source_witness:
  "execution_count \<lparr>execution_count = Some 3, input_hist_parsed = Some ['''', ''a = 1'', ''   ''], user_ns_In = None\<rparr> = Some 3
   \<and> (1 :: int) < 3
   \<and> previous_cell \<lparr>execution_count = Some 3, input_hist_parsed = Some ['''', ''a = 1'', ''   ''], user_ns_In = None\<rparr> (3 - 1)
       = Inr ''   ''
   \<and> strip ''   '' = []
   \<and> teach_me_this_cell (\<lambda>p. Inr ''ok'')
        \<lparr>execution_count = Some 3, input_hist_parsed = Some ['''', ''a = 1'', ''   ''], user_ns_In = None\<rparr>
        \<lparr>requests = [], displayed = []\<rparr>
       = (Inr (), \<lparr>requests = [], displayed = [Warning ''Previous cell appears to be empty.'']\<rparr>)
   \<and> previous_cell \<lparr>execution_count = Some 3, input_hist_parsed = Some ['''', ''a = 1'', '' x = 1 ''], user_ns_In = None\<rparr> (3 - 1)
       = Inr '' x = 1 ''
   \<and> strip '' x = 1 '' \<noteq> []
   \<and> requests (snd (teach_me_this_cell (\<lambda>p. Inr ''ok'')
        \<lparr>execution_count = Some 3, input_hist_parsed = Some ['''', ''a = 1'', '' x = 1 ''], user_ns_In = None\<rparr>
        \<lparr>requests = [], displayed = []\<rparr>))
       = [explain_prompt '''' 2 ''x = 1'', experiments_prompt ''x = 1'']"
proof -
  have a: "execution_count \<lparr>execution_count = Some 3, input_hist_parsed = Some ['''', ''a = 1'', ''   ''], user_ns_In = None\<rparr> = Some 3"
    by simp
  have b: "(1 :: int) < 3" by simp
  have p: "previous_cell \<lparr>execution_count = Some 3, input_hist_parsed = Some ['''', ''a = 1'', ''   ''], user_ns_In = None\<rparr> (3 - 1)
       = Inr ''   ''"
    by (simp add: previous_cell_def py_index_def)
  have a': "execution_count \<lparr>execution_count = Some 3, input_hist_parsed = Some ['''', ''a = 1'', '' x = 1 ''], user_ns_In = None\<rparr> = Some 3"
    by simp
  have p': "previous_cell \<lparr>execution_count = Some 3, input_hist_parsed = Some ['''', ''a = 1'', '' x = 1 ''], user_ns_In = None\<rparr> (3 - 1)
       = Inr '' x = 1 ''"
    by (simp add: previous_cell_def py_index_def)
  have s: "strip ''   '' = ''''" by (simp add: strip_def isspace_def)
  have s': "strip '' x = 1 '' = ''x = 1''" by (simp add: strip_def isspace_def)
  from live_helpers_guard_blank_source [OF a b p, of "\<lambda>p. Inr ''ok''" "\<lparr>requests = [], displayed = []\<rparr>"]
       live_helpers_guard_blank_source [OF a' b p', of "\<lambda>p. Inr ''ok''" "\<lparr>requests = [], displayed = []\<rparr>"]
  show ?thesis
    using p p' by (simp add: s s')
qed

text \<open>
  Counterexample to C3 as stated: the stored-document entry point analyses a code cell
  whose source is two spaces and sends both generation requests.
\<close>

theorem analyze_cell_blank_source_generates:
  "strip ''  '' = '''' \<and>
   analyze_cell (\<lambda>p. Inr ''ok'') [(''cells'', [[(''cell_type'', JStr ''code''), (''source'', JStr ''  '')]])] 0 []
     = (Inr (Analysis 0 ''  '' ''ok'' ''ok''), [explain_prompt '''' 0 ''  '', experiments_prompt ''  ''])"
proof -
  have s: "strip ''  '' = ''''" by (simp add: strip_def isspace_def)
  have "py_index [\<lparr>index = 0, ctype = JStr ''code'', source = ''  '', cid = JStr ''cell-0''\<rparr>] 0
          = Inr \<lparr>index = 0, ctype = JStr ''code'', source = ''  '', cid = JStr ''cell-0''\<rparr>"
    by (simp add: py_index_def)
  from analyze_cell_target [OF parse_one_code_cell _ this, of "\<lambda>p. Inr ''ok''" "[]"]
  show ?thesis using s by (simp add: build_context_def)
qed

section \<open>The cell index\<close>

text \<open>
  Claim C4, as the code has it: for every parsed document and every cell index that is
  at least the number of cells, \<open>analyze_cell\<close> returns the out-of-range error result and
  sends no generation request. (A negative index is not checked.)
\<close>

theorem analyze_cell_index_too_large:
  "parse_notebook notebook = Inr cells \<Longrightarrow> int (length cells) \<le> cell_index \<Longrightarrow>
     analyze_cell openai notebook cell_index sent =
       (Inr (Error (''Cell index '' @ py_str_int cell_index @ '' out of range. Notebook has ''
                     @ digits (length cells) @ '' cells.'')), sent)"
  by (rule analyze_cell_out_of_range)

text \<open>Witness for C4: index 1 in a notebook of one cell.\<close>

theorem analyze_cell_index_too_large_witness:
  "parse_notebook [(''cells'', [[(''cell_type'', JStr ''code''), (''source'', JStr ''x = 1'')]])]
     = Inr [\<lparr>index = 0, ctype = JStr ''code'', source = ''x = 1'', cid = JStr ''cell-0''\<rparr>]
   \<and> int (length [\<lparr>index = 0, ctype = JStr ''code'', source = ''x = 1'', cid = JStr ''cell-0''\<rparr>]) \<le> 1
   \<and> analyze_cell (\<lambda>p. Inr ''ok'') [(''cells'', [[(''cell_type'', JStr ''code''), (''source'', JStr ''x = 1'')]])] 1 []
       = (Inr (Error ''Cell index 1 out of range. Notebook has 1 cells.''), [])"
proof -
  have l: "int (length [\<lparr>index = 0, ctype = JStr ''code'', source = ''x = 1'', cid = JStr ''cell-0''\<rparr>]) \<le> 1"
    by simp
  from analyze_cell_index_too_large [OF parse_one_code_cell l, of "\<lambda>p. Inr ''ok''" "[]"]
  show ?thesis
    by (simp add: parse_one_code_cell py_str_int_def digits_small digit_char_simps)
qed

text \<open>
  Counterexample to C4 as stated: with the negative index \<open>-1\<close> on a notebook of one
  code cell, \<open>analyze_cell\<close> returns an analysis of that cell and sends two generation
  requests.
\<close>

theorem analyze_cell_negative_index_generates:
  "(- 1 :: int) < 0 \<and>
   analyze_cell (\<lambda>p. Inr ''ok'') [(''cells'', [[(''cell_type'', JStr ''code''), (''source'', JStr ''x = 1'')]])] (- 1) []
     = (Inr (Analysis (- 1) ''x = 1'' ''ok'' ''ok''), [explain_prompt '''' (- 1) ''x = 1'', experiments_prompt ''x = 1''])"
proof -
  have "py_index [\<lparr>index = 0, ctype = JStr ''code'', source = ''x = 1'', cid = JStr ''cell-0''\<rparr>] (- 1)
          = Inr \<lparr>index = 0, ctype = JStr ''code'', source = ''x = 1'', cid = JStr ''cell-0''\<rparr>"
    by (simp add: py_index_def)
  from analyze_cell_target [OF parse_one_code_cell _ this, of "\<lambda>p. Inr ''ok''" "[]"]
  show ?thesis by (simp add: build_context_def)
qed

text \<open>
  Claim C5: for every parsed document with at least one cell and every negative index
  from \<open>-cellCount\<close> to \<open>-1\<close>, \<open>analyze_cell\<close> does not return the out-of-range error
  result. It selects the cell at position \<open>cellCount + cellIndex\<close> and analyses it: a
  cell that is not code gives the informational result; for a code cell the explanation
  and the experiments are requested for that cell's source, with an empty context, and
  the result carries that source.
\<close>

theorem analyze_cell_negative_index:
  assumes "parse_notebook notebook = Inr cells"
    and "- int (length cells) \<le> cell_index" and "cell_index \<le> - 1"
  shows "(let target_cell = cells ! nat (int (length cells) + cell_index);
              p1 = explain_prompt '''' cell_index (source target_cell);
              p2 = experiments_prompt (source target_cell)
          in analyze_cell openai notebook cell_index sent =
               (if ctype target_cell \<noteq> JStr ''code'' then
                  (Inr (Info (''Cell '' @ py_str_int cell_index @ '' is a markdown cell, not code.'')), sent)
                else
                  (case openai p1 of
                     Inl e \<Rightarrow> (Inl e, sent @ [p1])
                   | Inr explanation \<Rightarrow>
                       (case openai p2 of
                          Inl e \<Rightarrow> (Inl e, sent @ [p1, p2])
                        | Inr experiments \<Rightarrow>
                            (Inr (Analysis cell_index (source target_cell) explanation experiments),
                             sent @ [p1, p2])))))
     \<and> (\<forall>m. fst (analyze_cell openai notebook cell_index sent) \<noteq> Inr (Error m))"
proof -
  have lt: "cell_index < int (length cells)" using assms(3) by simp
  have ix: "py_index cells cell_index = Inr (cells ! nat (int (length cells) + cell_index))"
    using assms(2,3) by (simp add: py_index_def)
  have ctx: "(if cell_index > 0 then take (nat cell_index) cells else []) = []"
    using assms(3) by simp
  have bc: "build_context (Some []) = ''''" by (simp add: build_context_def)
  note eq = analyze_cell_target [OF assms(1) lt ix, of openai sent, unfolded ctx bc]
  show ?thesis
    unfolding eq by (simp add: Let_def split: sum.splits)
qed

text \<open>
  Witness for C5: index \<open>-2\<close> in a notebook of a code cell and a markdown cell selects
  the code cell at position 0.
\<close>

theorem analyze_cell_negative_index_witness:
  "parse_notebook [(''cells'', [[(''cell_type'', JStr ''code''), (''source'', JStr ''x = 1'')],
                                [(''cell_type'', JStr ''markdown''), (''source'', JStr ''# notes'')]])]
     = Inr [\<lparr>index = 0, ctype = JStr ''code'', source = ''x = 1'', cid = JStr ''cell-0''\<rparr>,
            \<lparr>index = 1, ctype = JStr ''markdown'', source = ''# notes'', cid = JStr ''cell-1''\<rparr>]
   \<and> - int (length [\<lparr>index = 0, ctype = JStr ''code'', source = ''x = 1'', cid = JStr ''cell-0''\<rparr>,
            \<lparr>index = 1, ctype = JStr ''markdown'', source = ''# notes'', cid = JStr ''cell-1''\<rparr>]) \<le> - 2
   \<and> (- 2 :: int) \<le> - 1
   \<and> analyze_cell (\<lambda>p. Inr ''ok'')
        [(''cells'', [[(''cell_type'', JStr ''code''), (''source'', JStr ''x = 1'')],
                      [(''cell_type'', JStr ''markdown''), (''source'', JStr ''# notes'')]])] (- 2) [''earlier'']
       = (Inr (Analysis (- 2) ''x = 1'' ''ok'' ''ok''),
          [''earlier'', explain_prompt '''' (- 2) ''x = 1'', experiments_prompt ''x = 1''])"
proof -
  have p: "parse_notebook [(''cells'', [[(''cell_type'', JStr ''code''), (''source'', JStr ''x = 1'')],
                                [(''cell_type'', JStr ''markdown''), (''source'', JStr ''# notes'')]])]
     = Inr [\<lparr>index = 0, ctype = JStr ''code'', source = ''x = 1'', cid = JStr ''cell-0''\<rparr>,
            \<lparr>index = 1, ctype = JStr ''markdown'', source = ''# notes'', cid = JStr ''cell-1''\<rparr>]"
    by (simp add: parse_notebook_def subscript_def parse_cell_def digits_small digit_char_simps)
  have l: "- int (length [\<lparr>index = 0, ctype = JStr ''code'', source = ''x = 1'', cid = JStr ''cell-0''\<rparr>,
            \<lparr>index = 1, ctype = JStr ''markdown'', source = ''# notes'', cid = JStr ''cell-1''\<rparr>]) \<le> - 2"
    by simp
  from analyze_cell_negative_index [OF p l, of "\<lambda>p. Inr ''ok''" "[''earlier'']"]
  show ?thesis
    using p by (simp add: Let_def)
qed

section \<open>Malformed documents\<close>

text \<open>
  Claim C6, as the code has it: \<open>parse_notebook\<close> raises \<open>KeyError\<close> when the root
  object lacks the key \<open>cells\<close> (the exception names \<open>cells\<close>) or when some cell lacks
  \<open>cell_type\<close> or \<open>source\<close> (the exception names one of the two). The exception is not
  turned into a result value: \<open>analyze_cell\<close> does not catch it, so it reaches the
  caller as a raised exception, before any generation request.
\<close>

theorem parse_notebook_missing_key_raises:
  "(map_of notebook ''cells'' = None \<longrightarrow> parse_notebook notebook = Inl (KeyError ''cells'')) \<and>
   (map_of notebook ''cells'' = Some raw_cells \<and>
    (\<exists>cell \<in> set raw_cells. map_of cell ''cell_type'' = None \<or> map_of cell ''source'' = None) \<longrightarrow>
      parse_notebook notebook = Inl (KeyError ''cell_type'')
      \<or> parse_notebook notebook = Inl (KeyError ''source'')) \<and>
   (parse_notebook notebook = Inl e \<longrightarrow>
      analyze_cell openai notebook cell_index sent = (Inl e, sent))"
  using parse_loop_missing [of raw_cells 0 "[]"]
  by (auto simp: parse_notebook_def subscript_def analyze_cell_raises)

text \<open>
  Witness for C6: a root object without \<open>cells\<close>, and a document whose second cell has
  no \<open>cell_type\<close>.
\<close>

theorem parse_notebook_missing_key_raises_witness:
  "map_of ([] :: jval dict list dict) ''cells'' = None
   \<and> parse_notebook [] = Inl (KeyError ''cells'')
   \<and> analyze_cell (\<lambda>p. Inr ''ok'') [] 0 [] = (Inl (KeyError ''cells''), [])
   \<and> map_of [(''cells'', [[(''cell_type'', JStr ''code''), (''source'', JStr ''x = 1'')],
                            [(''source'', JStr ''y = 2'')]])] ''cells''
       = Some [[(''cell_type'', JStr ''code''), (''source'', JStr ''x = 1'')], [(''source'', JStr ''y = 2'')]]
   \<and> map_of [(''source'', JStr ''y = 2'')] ''cell_type'' = None
   \<and> parse_notebook [(''cells'', [[(''cell_type'', JStr ''code''), (''source'', JStr ''x = 1'')],
                                   [(''source'', JStr ''y = 2'')]])]
       = Inl (KeyError ''cell_type'')"
proof -
  have p: "parse_notebook [(''cells'', [[(''cell_type'', JStr ''code''), (''source'', JStr ''x = 1'')],
                                   [(''source'', JStr ''y = 2'')]])]
       = Inl (KeyError ''cell_type'')"
    by (simp add: parse_notebook_def subscript_def parse_cell_def)
  from parse_notebook_missing_key_raises
         [of "[]" "[]" "KeyError ''cells''" "\<lambda>p. Inr ''ok''" 0 "[]"]
       parse_notebook_missing_key_raises
         [of "[(''cells'', [[(''cell_type'', JStr ''code''), (''source'', JStr ''x = 1'')],
                            [(''source'', JStr ''y = 2'')]])]"
             "[[(''cell_type'', JStr ''code''), (''source'', JStr ''x = 1'')], [(''source'', JStr ''y = 2'')]]"
             "KeyError ''cell_type''" "\<lambda>p. Inr ''ok''" 0 "[]"]
  show ?thesis
    using p by simp
qed

text \<open>
  Counterexample to C6 as stated: for a document whose only cell lacks \<open>source\<close>, the
  call of \<open>analyze_cell\<close> ends in a raised \<open>KeyError\<close>; no result value is returned.
\<close>

theorem analyze_cell_missing_source_raises:
  "map_of [(''cell_type'', JStr ''code'')] ''source'' = None \<and>
   parse_notebook [(''cells'', [[(''cell_type'', JStr ''code'')]])] = Inl (KeyError ''source'') \<and>
   analyze_cell (\<lambda>p. Inr ''ok'') [(''cells'', [[(''cell_type'', JStr ''code'')]])] 0 []
     = (Inl (KeyError ''source''), [])"
  by (simp add: analyze_cell_def parse_notebook_def subscript_def parse_cell_def)

section \<open>The previous execution entry\<close>

text \<open>
  Claim C7: resolving the previous entry never raises. The dense history
  \<open>input_hist_parsed\<close> is tried first: when the session has it, the result is read from
  it alone, whatever the mapping \<open>In\<close> holds; an ordinal inside the dense history
  resolves to the entry stored there, an ordinal beyond its end resolves to the empty
  text, and the mapping is not read. The mapping is the fallback, read only when the
  dense history is not there: an entry it holds at the ordinal is the result, and an
  index out of range, an absent key or an absent mapping resolves to the empty text.
  So a lookup miss is the empty text and never an exception: for a session with
  execution count above 1 whose history lacks the entry at the previous ordinal, each
  live entry point displays the warning and sends no generation request.
\<close>

theorem lookup_miss_warns:
  "(\<exists>s. previous_cell ipython k = Inr s) \<and>
   (input_hist_parsed ipython = Some hist \<longrightarrow>
      previous_cell (ipython\<lparr>user_ns_In := ns\<rparr>) k = previous_cell ipython k) \<and>
   (input_hist_parsed ipython = Some hist \<and> 0 \<le> k \<and> k < int (length hist) \<longrightarrow>
      previous_cell ipython k = Inr (hist ! nat k)) \<and>
   (input_hist_parsed ipython = Some hist \<and> int (length hist) \<le> k \<longrightarrow>
      previous_cell ipython k = Inr '''') \<and>
   (input_hist_parsed ipython = None \<and> user_ns_In ipython = Some h \<longrightarrow>
      previous_cell ipython k = (case history_item h k of Inl e \<Rightarrow> Inr '''' | Inr s \<Rightarrow> Inr s)) \<and>
   (input_hist_parsed ipython = None \<and> user_ns_In ipython = Some (HistList xs)
      \<and> 0 \<le> k \<and> k < int (length xs) \<longrightarrow>
      previous_cell ipython k = Inr (xs ! nat k)) \<and>
   (input_hist_parsed ipython = None \<and> user_ns_In ipython = Some (HistList xs)
      \<and> int (length xs) \<le> k \<longrightarrow>
      previous_cell ipython k = Inr '''') \<and>
   (input_hist_parsed ipython = None \<and> user_ns_In ipython = Some (HistDict d) \<longrightarrow>
      previous_cell ipython k = (case map_of d k of None \<Rightarrow> Inr '''' | Some v \<Rightarrow> Inr v)) \<and>
   (input_hist_parsed ipython = None \<and> user_ns_In ipython = None \<longrightarrow>
      previous_cell ipython k = Inr '''') \<and>
   (execution_count ipython = Some c \<and> 1 < c \<and> lookup_miss ipython (c - 1) \<longrightarrow>
      previous_cell ipython (c - 1) = Inr ''''
      \<and> explain_this_cell openai ipython w
          = (Inr (), w\<lparr>displayed := displayed w @ [Warning ''Previous cell appears to be empty.'']\<rparr>)
      \<and> experiments_for_this_cell openai ipython w
          = (Inr (), w\<lparr>displayed := displayed w @ [Warning ''Previous cell appears to be empty.'']\<rparr>)
      \<and> teach_me_this_cell openai ipython w
          = (Inr (), w\<lparr>displayed := displayed w @ [Warning ''Previous cell appears to be empty.'']\<rparr>))"
proof (intro conjI impI)
  show "\<exists>s. previous_cell ipython k = Inr s" by (rule previous_cell_returns)
next
  assume "input_hist_parsed ipython = Some hist"
  then show "previous_cell (ipython\<lparr>user_ns_In := ns\<rparr>) k = previous_cell ipython k"
    by (simp add: previous_cell_def)
next
  assume "input_hist_parsed ipython = Some hist \<and> 0 \<le> k \<and> k < int (length hist)"
  then show "previous_cell ipython k = Inr (hist ! nat k)"
    by (simp add: previous_cell_def py_index_def)
next
  assume "input_hist_parsed ipython = Some hist \<and> int (length hist) \<le> k"
  then show "previous_cell ipython k = Inr ''''"
    by (simp add: previous_cell_def)
next
  assume "input_hist_parsed ipython = None \<and> user_ns_In ipython = Some h"
  then show "previous_cell ipython k = (case history_item h k of Inl e \<Rightarrow> Inr '''' | Inr s \<Rightarrow> Inr s)"
    by (auto simp: previous_cell_def history_item_def py_index_def
        split: history.splits option.splits sum.splits exn.splits)
next
  assume "input_hist_parsed ipython = None \<and> user_ns_In ipython = Some (HistList xs)
      \<and> 0 \<le> k \<and> k < int (length xs)"
  then show "previous_cell ipython k = Inr (xs ! nat k)"
    by (simp add: previous_cell_def history_item_def py_index_def)
next
  assume "input_hist_parsed ipython = None \<and> user_ns_In ipython = Some (HistList xs)
      \<and> int (length xs) \<le> k"
  then show "previous_cell ipython k = Inr ''''"
    by (simp add: previous_cell_def history_item_def py_index_def)
next
  assume "input_hist_parsed ipython = None \<and> user_ns_In ipython = Some (HistDict d)"
  then show "previous_cell ipython k = (case map_of d k of None \<Rightarrow> Inr '''' | Some v \<Rightarrow> Inr v)"
    by (simp add: previous_cell_def history_item_def split: option.splits)
next
  assume "input_hist_parsed ipython = None \<and> user_ns_In ipython = None"
  then show "previous_cell ipython k = Inr ''''"
    by (simp add: previous_cell_def)
next
  assume h: "execution_count ipython = Some c \<and> 1 < c \<and> lookup_miss ipython (c - 1)"
  then have c: "execution_count ipython = Some c" "1 < c" and miss: "lookup_miss ipython (c - 1)"
    by simp_all
  from c(2) have "0 \<le> c - 1" by simp
  from previous_cell_miss [OF this miss]
  show p: "previous_cell ipython (c - 1) = Inr ''''" .
  show "explain_this_cell openai ipython w
      = (Inr (), w\<lparr>displayed := displayed w @ [Warning ''Previous cell appears to be empty.'']\<rparr>)"
    using explain_this_cell_blank [OF c p strip_Nil] by (simp add: display_def)
  show "experiments_for_this_cell openai ipython w
      = (Inr (), w\<lparr>displayed := displayed w @ [Warning ''Previous cell appears to be empty.'']\<rparr>)"
    using experiments_for_this_cell_blank [OF c p strip_Nil] by (simp add: display_def)
  show "teach_me_this_cell openai ipython w
      = (Inr (), w\<lparr>displayed := displayed w @ [Warning ''Previous cell appears to be empty.'']\<rparr>)"
    using teach_me_this_cell_blank [OF c p strip_Nil] by (simp add: display_def)
qed

text \<open>
  Witness for C7: execution count 3 with a mapping that has no key 2; execution count 3
  with a dense history of two entries, where the mapping does have the key 2 and is
  not read; a dense history that holds the entry at ordinal 4; and, without a dense
  history, a mapping and a list that hold the entry at ordinal 4.
\<close>

theorem lookup_miss_warns_witness:
  "execution_count \<lparr>execution_count = Some 3, input_hist_parsed = None, user_ns_In = Some (HistDict [(1, ''x = 1'')])\<rparr> = Some 3
   \<and> (1 :: int) < 3
   \<and> lookup_miss \<lparr>execution_count = Some 3, input_hist_parsed = None, user_ns_In = Some (HistDict [(1, ''x = 1'')])\<rparr> (3 - 1)
   \<and> teach_me_this_cell (\<lambda>p. Inr ''ok'')
        \<lparr>execution_count = Some 3, input_hist_parsed = None, user_ns_In = Some (HistDict [(1, ''x = 1'')])\<rparr>
        \<lparr>requests = [], displayed = []\<rparr>
       = (Inr (), \<lparr>requests = [], displayed = [Warning ''Previous cell appears to be empty.'']\<rparr>)
   \<and> input_hist_parsed \<lparr>execution_count = Some 3, input_hist_parsed = Some ['''', ''x = 1''], user_ns_In = Some (HistDict [(2, ''y = 2'')])\<rparr>
       = Some ['''', ''x = 1'']
   \<and> lookup_miss \<lparr>execution_count = Some 3, input_hist_parsed = Some ['''', ''x = 1''], user_ns_In = Some (HistDict [(2, ''y = 2'')])\<rparr> (3 - 1)
   \<and> previous_cell \<lparr>execution_count = Some 3, input_hist_parsed = Some ['''', ''x = 1''], user_ns_In = Some (HistDict [(2, ''y = 2'')])\<rparr> 2
       = Inr ''''
   \<and> explain_this_cell (\<lambda>p. Inr ''ok'')
        \<lparr>execution_count = Some 3, input_hist_parsed = Some ['''', ''x = 1''], user_ns_In = Some (HistDict [(2, ''y = 2'')])\<rparr>
        \<lparr>requests = [], displayed = []\<rparr>
       = (Inr (), \<lparr>requests = [], displayed = [Warning ''Previous cell appears to be empty.'']\<rparr>)
   \<and> (0 :: int) \<le> 4 \<and> 4 < int (length ['''', ''a = 1'', ''b = 2'', ''c = 3'', ''x = 1''])
   \<and> previous_cell \<lparr>execution_count = Some 5,
         input_hist_parsed = Some ['''', ''a = 1'', ''b = 2'', ''c = 3'', ''x = 1''],
         user_ns_In = Some (HistDict [(4, ''y = 2'')])\<rparr> 4
       = Inr ''x = 1''
   \<and> previous_cell \<lparr>execution_count = Some 5, input_hist_parsed = None,
         user_ns_In = Some (HistDict [(4, ''x = 1'')])\<rparr> 4
       = Inr ''x = 1''
   \<and> previous_cell \<lparr>execution_count = Some 5, input_hist_parsed = None,
         user_ns_In = Some (HistList ['''', ''a = 1'', ''b = 2'', ''c = 3'', ''x = 1''])\<rparr> 4
       = Inr ''x = 1''"
  using lookup_miss_warns
          [where ipython = "\<lparr>execution_count = Some 3, input_hist_parsed = None, user_ns_In = Some (HistDict [(1, ''x = 1'')])\<rparr>"
             and k = 2 and c = 3 and openai = "\<lambda>p. Inr ''ok''" and w = "\<lparr>requests = [], displayed = []\<rparr>"]
        lookup_miss_warns
          [where ipython = "\<lparr>execution_count = Some 3, input_hist_parsed = Some ['''', ''x = 1''], user_ns_In = Some (HistDict [(2, ''y = 2'')])\<rparr>"
             and k = 2 and hist = "['''', ''x = 1'']" and c = 3 and openai = "\<lambda>p. Inr ''ok''"
             and w = "\<lparr>requests = [], displayed = []\<rparr>"]
        lookup_miss_warns
          [where ipython = "\<lparr>execution_count = Some 5,
                 input_hist_parsed = Some ['''', ''a = 1'', ''b = 2'', ''c = 3'', ''x = 1''],
                 user_ns_In = Some (HistDict [(4, ''y = 2'')])\<rparr>"
             and k = 4 and hist = "['''', ''a = 1'', ''b = 2'', ''c = 3'', ''x = 1'']"]
        lookup_miss_warns
          [where ipython = "\<lparr>execution_count = Some 5, input_hist_parsed = None,
                 user_ns_In = Some (HistDict [(4, ''x = 1'')])\<rparr>"
             and k = 4 and d = "[(4, ''x = 1'')]"]
        lookup_miss_warns
          [where ipython = "\<lparr>execution_count = Some 5, input_hist_parsed = None,
                 user_ns_In = Some (HistList ['''', ''a = 1'', ''b = 2'', ''c = 3'', ''x = 1''])\<rparr>"
             and k = 4 and xs = "['''', ''a = 1'', ''b = 2'', ''c = 3'', ''x = 1'']"]
  by (simp add: lookup_miss_def)

text \<open>
  Claim C8: when the current execution count is undefined, 0 or 1, each live entry point
  displays its warning and sends no generation request, whatever the history holds: the
  result does not depend on the history, which is not read.
\<close>

theorem no_previous_cell_warns:
  "c = None \<or> c = Some 0 \<or> c = Some 1 \<Longrightarrow>
     explain_this_cell openai \<lparr>execution_count = c, input_hist_parsed = hist, user_ns_In = ns\<rparr> w
       = (Inr (), w\<lparr>displayed := displayed w @ [Warning ''Need at least one previous cell to explain.'']\<rparr>)
   \<and> experiments_for_this_cell openai \<lparr>execution_count = c, input_hist_parsed = hist, user_ns_In = ns\<rparr> w
       = (Inr (), w\<lparr>displayed := displayed w
                      @ [Warning ''Need at least one previous cell to generate experiments for.'']\<rparr>)
   \<and> teach_me_this_cell openai \<lparr>execution_count = c, input_hist_parsed = hist, user_ns_In = ns\<rparr> w
       = (Inr (), w\<lparr>displayed := displayed w @ [Warning ''Need at least one previous cell to teach.'']\<rparr>)"
proof -
  assume "c = None \<or> c = Some 0 \<or> c = Some 1"
  then have "execution_count \<lparr>execution_count = c, input_hist_parsed = hist, user_ns_In = ns\<rparr> = None
      \<or> (\<exists>n. execution_count \<lparr>execution_count = c, input_hist_parsed = hist, user_ns_In = ns\<rparr> = Some n \<and> n \<le> 1)"
    by auto
  from explain_this_cell_no_previous [OF this] experiments_for_this_cell_no_previous [OF this]
    teach_me_this_cell_no_previous [OF this]
  show ?thesis by (simp add: display_def)
qed

text \<open>Witness for C8: execution count 1, with a history that does hold entries.\<close>

theorem no_previous_cell_warns_witness:
  "(Some 1 = (None :: int option) \<or> Some 1 = Some (0 :: int) \<or> Some (1 :: int) = Some 1)
   \<and> teach_me_this_cell (\<lambda>p. Inr ''ok'')
        \<lparr>execution_count = Some 1, input_hist_parsed = Some [''x = 1'', ''y = 2''], user_ns_In = None\<rparr>
        \<lparr>requests = [], displayed = []\<rparr>
       = (Inr (), \<lparr>requests = [], displayed = [Warning ''Need at least one previous cell to teach.'']\<rparr>)"
  using no_previous_cell_warns
    [of "Some 1" "\<lambda>p. Inr ''ok''" "Some [''x = 1'', ''y = 2'']" None "\<lparr>requests = [], displayed = []\<rparr>"]
  by simp

section \<open>Source encodings\<close>

text \<open>
  Claim C9: for a document whose cells give their source as one string, and the
  document in which each source is the same text split into a list of fragments (the
  other entries unchanged), parsing gives the same result; when every cell has a
  \<open>cell_type\<close>, both parse to the same cells, whose source texts are the strings of
  the first document, the fragments being joined in order with no separator.
\<close>

theorem parse_notebook_fragments:
  assumes "map_of notebook ''cells'' = Some raw_cells"
    and "map_of notebook' ''cells'' = Some raw_cells'"
    and "list_all2 fragmented raw_cells raw_cells'"
  shows "parse_notebook notebook' = parse_notebook notebook \<and>
     ((\<forall>c \<in> set raw_cells. map_of c ''cell_type'' \<noteq> None) \<longrightarrow>
        (\<exists>cells. parse_notebook notebook = Inr cells \<and> parse_notebook notebook' = Inr cells
           \<and> map (\<lambda>c. Some (JStr (source c))) cells = map (\<lambda>c. map_of c ''source'') raw_cells))"
proof -
  have eq: "parse_notebook notebook' = parse_notebook notebook"
    using assms by (simp add: parse_notebook_def subscript_def parse_loop_fragmented)
  have src: "\<forall>c \<in> set raw_cells. \<exists>s. map_of c ''source'' = Some (JStr s)"
  proof
    fix c assume "c \<in> set raw_cells"
    then obtain i where "i < length raw_cells" "raw_cells ! i = c"
      by (auto simp: in_set_conv_nth)
    with assms(3) have "fragmented c (raw_cells' ! i)"
      by (auto simp: list_all2_conv_all_nth)
    then show "\<exists>s. map_of c ''source'' = Some (JStr s)"
      by (auto simp: fragmented_def split: option.splits jval.splits)
  qed
  show ?thesis
  proof (intro conjI impI)
    show "parse_notebook notebook' = parse_notebook notebook" by (rule eq)
  next
    assume "\<forall>c \<in> set raw_cells. map_of c ''cell_type'' \<noteq> None"
    with src have "\<forall>c \<in> set raw_cells. map_of c ''cell_type'' \<noteq> None \<and> (\<exists>s. map_of c ''source'' = Some (JStr s))"
      by blast
    from parse_loop_sources [OF this, of 0 "[]"] obtain cells where
      "parse_loop 0 raw_cells [] = Inr cells"
      "map (\<lambda>c. Some (JStr (source c))) cells = map (\<lambda>c. map_of c ''source'') raw_cells"
      by auto
    then show "\<exists>cells. parse_notebook notebook = Inr cells \<and> parse_notebook notebook' = Inr cells
           \<and> map (\<lambda>c. Some (JStr (source c))) cells = map (\<lambda>c. map_of c ''source'') raw_cells"
      using assms(1) eq by (simp add: parse_notebook_def subscript_def)
  qed
qed

text \<open>Witness for C9: the source \<open>x = 1\<close> as one string and as two fragments.\<close>

theorem parse_notebook_fragments_witness:
  "map_of [(''cells'', [[(''cell_type'', JStr ''code''), (''source'', JStr ''x = 1'')]])] ''cells''
     = Some [[(''cell_type'', JStr ''code''), (''source'', JStr ''x = 1'')]]
   \<and> map_of [(''cells'', [[(''cell_type'', JStr ''code''), (''source'', JList [''x '', ''= 1''])]])] ''cells''
     = Some [[(''cell_type'', JStr ''code''), (''source'', JList [''x '', ''= 1''])]]
   \<and> list_all2 fragmented [[(''cell_type'', JStr ''code''), (''source'', JStr ''x = 1'')]]
        [[(''cell_type'', JStr ''code''), (''source'', JList [''x '', ''= 1''])]]
   \<and> parse_notebook [(''cells'', [[(''cell_type'', JStr ''code''), (''source'', JList [''x '', ''= 1''])]])]
     = Inr [\<lparr>index = 0, ctype = JStr ''code'', source = ''x = 1'', cid = JStr ''cell-0''\<rparr>]"
proof -
  have a: "map_of [(''cells'', [[(''cell_type'', JStr ''code''), (''source'', JStr ''x = 1'')]])] ''cells''
     = Some [[(''cell_type'', JStr ''code''), (''source'', JStr ''x = 1'')]]" by simp
  have b: "map_of [(''cells'', [[(''cell_type'', JStr ''code''), (''source'', JList [''x '', ''= 1''])]])] ''cells''
     = Some [[(''cell_type'', JStr ''code''), (''source'', JList [''x '', ''= 1''])]]" by simp
  have c: "list_all2 fragmented [[(''cell_type'', JStr ''code''), (''source'', JStr ''x = 1'')]]
        [[(''cell_type'', JStr ''code''), (''source'', JList [''x '', ''= 1''])]]"
    by (simp add: fragmented_def)
  from parse_notebook_fragments [OF a b c] show ?thesis
    using a b c by (simp add: parse_one_code_cell)
qed

section \<open>Prompt rendering\<close>

text \<open>
  Claim C10: rendering a prompt twice from the same arguments gives the same text, for
  the explanation and for the experiments template. Two calls in a row with the same
  arguments send the same prompt twice, whatever was sent before and whatever the
  service answers: the prompt is a function of the arguments alone.
\<close>

theorem prompt_rendering_deterministic:
  "snd (explain_concept openai2 cell_content cell_index context_cells
          (snd (explain_concept openai1 cell_content cell_index context_cells sent)))
     = sent @ [explain_prompt (build_context context_cells) cell_index cell_content,
               explain_prompt (build_context context_cells) cell_index cell_content]
   \<and> snd (suggest_experiments openai2 cell_content cell_index
          (snd (suggest_experiments openai1 cell_content cell_index sent)))
     = sent @ [experiments_prompt cell_content, experiments_prompt cell_content]"
  by (simp add: explain_concept_eq suggest_experiments_eq)

end
